theory Spec2Isabelle
  imports Complex_Main
begin

section \<open>Conventions of the embedding\<close>

text \<open>
  The repository is numpy code over float64 arrays.  Arrays are lists, a two-dimensional
  array is a list of rows, and a float is a \<^typ>\<open>real\<close>: rounding, infinities and NaN are
  outside the model, so every statement below is about the exact arithmetic the code
  approximates.  Every place where Python raises is a branch returning \<open>Inl\<close> of an
  \<open>error\<close>; a function that ends with a bare \<open>return\<close> yields \<open>None\<close>.

  A numpy division by zero does not raise: it warns and goes on with \<open>inf\<close> or \<open>nan\<close>.
  The model stops there with \<open>NotFinite\<close>, which is no Python exception but the mark
  that the run has left exact arithmetic; where the quotient is never used (the unused
  \<open>quadFactor\<close>, the ratio under the test \<open>ebvL19Med > 0\<close>) nothing is marked.
\<close>

datatype error =
  IndexError | ValueError | TypeError | KeyError | ZeroDivisionError | NotFinite

definition fdiv :: "real \<Rightarrow> real \<Rightarrow> error + real" where
  "fdiv a b = (if b = 0 then Inl NotFinite else Inr (a / b))"

section \<open>numpy primitives\<close>

text \<open>
  \<open>np.arange(start, stop, step)\<close> on floats has \<open>ceil((stop - start) / step)\<close> elements
  \<open>start + i * step\<close> (none when that count is not positive) and raises
  ZeroDivisionError for a zero step.
\<close>

definition arange :: "real \<Rightarrow> real \<Rightarrow> real \<Rightarrow> error + real list" where
  "arange start stop step =
     (if step = 0 then Inl ZeroDivisionError
      else Inr (map (\<lambda>i. start + real i * step) [0..<nat \<lceil>(stop - start) / step\<rceil>]))"

text \<open>
  \<open>np.linspace(start, stop, num, endpoint=False)\<close>: \<open>num\<close> samples
  \<open>start + i * ((stop - start) / num)\<close>.
\<close>

definition linspace_open :: "real \<Rightarrow> real \<Rightarrow> nat \<Rightarrow> real list" where
  "linspace_open start stop num =
     map (\<lambda>i. start + real i * ((stop - start) / real num)) [0..<num]"

text \<open>\<open>np.max\<close> raises ValueError on an empty array.\<close>

definition np_max :: "real list \<Rightarrow> error + real" where
  "np_max xs = (case xs of [] \<Rightarrow> Inl ValueError | y # ys \<Rightarrow> Inr (fold max ys y))"

text \<open>\<open>np.roll(xs, 1)\<close>: the last element moves to the front.\<close>

definition roll1 :: "real list \<Rightarrow> real list" where
  "roll1 xs = (if xs = [] then [] else last xs # butlast xs)"

fun cumsum_from :: "real \<Rightarrow> real list \<Rightarrow> real list" where
  "cumsum_from acc [] = []"
| "cumsum_from acc (x # xs) = (acc + x) # cumsum_from (acc + x) xs"

definition cumsum :: "real list \<Rightarrow> real list" where
  "cumsum xs = cumsum_from 0 xs"

text \<open>\<open>np.argmin\<close>: the first index of the least element; ValueError on an empty array.\<close>

fun argmin_from :: "nat \<Rightarrow> real \<Rightarrow> nat \<Rightarrow> real list \<Rightarrow> nat" where
  "argmin_from best bv i [] = best"
| "argmin_from best bv i (x # xs) =
     (if x < bv then argmin_from i x (Suc i) xs else argmin_from best bv (Suc i) xs)"

definition argmin :: "real list \<Rightarrow> error + nat" where
  "argmin xs = (case xs of [] \<Rightarrow> Inl ValueError | y # ys \<Rightarrow> Inr (argmin_from 0 y 1 ys))"

text \<open>
  \<open>np.median\<close> of a one-dimensional sample: the middle element of the sorted sample, or
  the mean of the two middle ones.
\<close>

definition median :: "real list \<Rightarrow> real" where
  "median xs =
     (let s = sort xs; n = length s
      in if odd n then s ! (n div 2) else (s ! (n div 2 - 1) + s ! (n div 2)) / 2)"

text \<open>\<open>np.median(stack, axis=0)\<close>: the median of every column of a stack of rows.\<close>

definition median_axis0 :: "real list list \<Rightarrow> real list" where
  "median_axis0 stack =
     (case stack of [] \<Rightarrow> []
      | r # rs \<Rightarrow> map (\<lambda>j. median (map (\<lambda>row. row ! j) stack)) [0..<length r])"

section \<open>stilism\_local.py: the dust cube and its line integral\<close>

text \<open>
  The cube read from the HDF5 file at import: the array \<open>cube_datas\<close> of shape
  \<open>(nx, ny, nz)\<close>, the attribute \<open>gridstep_values\<close> and the attribute \<open>sun_position\<close>.
  The file is not part of the repository, so the cube is a parameter of everything below.
\<close>

record cube =
  cube_datas :: "nat \<Rightarrow> nat \<Rightarrow> nat \<Rightarrow> real"
  nx :: nat
  ny :: nat
  nz :: nat
  stepx :: real
  stepy :: real
  stepz :: real
  sunx :: real
  suny :: real
  sunz :: real

text \<open>\<open>np.arange(n) * step - center\<close> with \<open>center = sun_position * steps\<close>.\<close>

definition axis :: "nat \<Rightarrow> real \<Rightarrow> real \<Rightarrow> real list" where
  "axis n step sun = map (\<lambda>i. real i * step - sun * step) [0..<n]"

definition x0 :: "cube \<Rightarrow> real list" where
  "x0 c = axis (nx c) (stepx c) (sunx c)"

definition y0 :: "cube \<Rightarrow> real list" where
  "y0 c = axis (ny c) (stepy c) (suny c)"

definition z0 :: "cube \<Rightarrow> real list" where
  "z0 c = axis (nz c) (stepz c) (sunz c)"

text \<open>
  Modelled from the spec: \<open>scipy.interpolate.RegularGridInterpolator\<close> is a library
  class, not code of the repository; it is written here as spec section 4.1 and the
  library's documentation describe it (default linear method).  Construction needs every
  axis to be strictly ascending or strictly descending and raises ValueError otherwise; a
  descending axis is reversed together with the values along it.  On each axis the cell
  is found by a left binary search clipped to the grid, and the eight corner values are
  weighted by the normalised offsets.  A point below the least or above the greatest grid
  value on some axis is out of bounds: then \<open>bounds_error=True\<close> raises ValueError, and
  otherwise a \<open>fill_value\<close> that is not \<open>None\<close> replaces the interpolated value.
\<close>

definition valid_axis :: "real list \<Rightarrow> bool" where
  "valid_axis grid = (grid \<noteq> [] \<and> (sorted_wrt (<) grid \<or> sorted_wrt (>) grid))"

definition ascending :: "real list \<Rightarrow> real list" where
  "ascending grid = (if sorted_wrt (<) grid then grid else rev grid)"

definition axis_index :: "real list \<Rightarrow> nat \<Rightarrow> nat" where
  "axis_index grid i = (if sorted_wrt (<) grid then i else length grid - 1 - i)"

definition out_of_bounds :: "real list \<Rightarrow> real \<Rightarrow> bool" where
  "out_of_bounds grid x = (x < hd (ascending grid) \<or> x > last (ascending grid))"

definition find_index :: "real list \<Rightarrow> real \<Rightarrow> nat" where
  "find_index grid x =
     nat (min (max (int (length (takeWhile (\<lambda>g. g < x) (ascending grid))) - 1) 0)
              (int (length grid) - 2))"

definition norm_distance :: "real list \<Rightarrow> real \<Rightarrow> real" where
  "norm_distance grid x =
     (let g = ascending grid; i = find_index grid x
      in if length g < 2 then 0 else (x - g ! i) / (g ! Suc i - g ! i))"

definition edge_weight :: "real \<Rightarrow> nat \<Rightarrow> real" where
  "edge_weight t a = (if a = 0 then 1 - t else t)"

definition corner :: "real list \<Rightarrow> real \<Rightarrow> nat \<Rightarrow> nat" where
  "corner grid x a = axis_index grid (min (find_index grid x + a) (length grid - 1))"

definition evaluate_linear ::
  "real list \<times> real list \<times> real list \<Rightarrow> (nat \<Rightarrow> nat \<Rightarrow> nat \<Rightarrow> real)
   \<Rightarrow> real \<times> real \<times> real \<Rightarrow> real" where
  "evaluate_linear grids vals p =
     (case grids of (gx, gy, gz) \<Rightarrow> case p of (x, y, z) \<Rightarrow>
        (let tx = norm_distance gx x; ty = norm_distance gy y; tz = norm_distance gz z
         in sum_list (map (\<lambda>(a, b, d).
                edge_weight tx a * edge_weight ty b * edge_weight tz d
                  * vals (corner gx x a) (corner gy y b) (corner gz z d))
              (List.product [0, 1] (List.product [0, 1] [0, 1])))))"

definition RegularGridInterpolator ::
  "real list \<times> real list \<times> real list \<Rightarrow> (nat \<Rightarrow> nat \<Rightarrow> nat \<Rightarrow> real)
   \<Rightarrow> bool \<Rightarrow> real option \<Rightarrow> real \<times> real \<times> real \<Rightarrow> error + real" where
  "RegularGridInterpolator grids vals bounds_error fill_value p =
     (case grids of (gx, gy, gz) \<Rightarrow> case p of (x, y, z) \<Rightarrow>
        if \<not> (valid_axis gx \<and> valid_axis gy \<and> valid_axis gz) then Inl ValueError
        else
        (let oob = (out_of_bounds gx x \<or> out_of_bounds gy y \<or> out_of_bounds gz z)
         in if bounds_error \<and> oob then Inl ValueError
            else if oob \<and> fill_value \<noteq> None then Inr (the fill_value)
            else Inr (evaluate_linear grids vals p)))"

text \<open>
  The module-level interpolator (lines 28-29):
  \<open>RegularGridInterpolator((x0,y0,z0), ebv, bounds_error=False, fill_value=0.)\<close>.
  Where its construction fails the import of the module fails; here every call of \<open>rgi\<close>
  on such a cube yields the error.
\<close>

definition rgi :: "cube \<Rightarrow> real \<times> real \<times> real \<Rightarrow> error + real" where
  "rgi c p = RegularGridInterpolator (x0 c, y0 c, z0 c) (cube_datas c) False (Some 0) p"

text \<open>The cubes on which the interpolator exists.\<close>

definition rgi_built :: "cube \<Rightarrow> bool" where
  "rgi_built c = (valid_axis (x0 c) \<and> valid_axis (y0 c) \<and> valid_axis (z0 c))"

text \<open>
  \<open>math.radians\<close> and \<open>gal_to_xyz\<close> at one distance of the array argument.  The source's
  parameter \<open>dist\<close> is written \<open>dst\<close> here, and \<open>dmax\<close> in \<open>get_ebv_lallement\<close>.
\<close>

definition radians :: "real \<Rightarrow> real" where
  "radians d = d * pi / 180"

definition gal_to_xyz :: "real \<Rightarrow> real \<Rightarrow> real \<Rightarrow> real \<times> real \<times> real" where
  "gal_to_xyz l b dst =
     (let l_rad = radians l; b_rad = radians b; R = dst * cos b_rad
      in (R * cos l_rad, R * sin l_rad, dst * sin b_rad))"

definition generate_distances :: "real \<Rightarrow> real \<Rightarrow> real \<Rightarrow> error + real list" where
  "generate_distances dmax dmin dstep = arange dmin (dmax + (1 / 10) * dstep) dstep"

text \<open>The test \<open>bInCube\<close> of \<open>find_max_distance\<close> at one distance.\<close>

definition bInCube :: "cube \<Rightarrow> real \<Rightarrow> real \<Rightarrow> real \<Rightarrow> bool" where
  "bInCube c l b d =
     (case gal_to_xyz l b d of (x, y, z) \<Rightarrow>
        \<bar>x\<bar> < last (x0 c) \<and> \<bar>y\<bar> < last (y0 c) \<and> \<bar>z\<bar> < last (z0 c))"

text \<open>
  \<open>find_max_distance\<close> returns the largest in-cube distance, the boolean array and the
  coordinates; for an empty array it returns \<open>0.\<close> and two empty arrays, and \<open>np.max\<close>
  raises when no distance is inside the cube.
\<close>

definition find_max_distance ::
  "cube \<Rightarrow> real \<Rightarrow> real \<Rightarrow> real list \<Rightarrow> error + (real \<times> bool list \<times> (real \<times> real \<times> real) list)" where
  "find_max_distance c l b ds =
     (if length ds < 1 then Inr (0, [], [])
      else case np_max (filter (bInCube c l b) ds) of
             Inl e \<Rightarrow> Inl e
           | Inr distMax \<Rightarrow> Inr (distMax, map (bInCube c l b) ds, map (gal_to_xyz l b) ds))"

text \<open>\<open>rgi(xyz_interp)\<close>: the interpolator at every point of the ray.\<close>

fun rgi_all :: "cube \<Rightarrow> (real \<times> real \<times> real) list \<Rightarrow> error + real list" where
  "rgi_all c [] = Inr []"
| "rgi_all c (p # ps) =
     (case rgi c p of Inl e \<Rightarrow> Inl e
      | Inr v \<Rightarrow> (case rgi_all c ps of Inl e \<Rightarrow> Inl e | Inr vs \<Rightarrow> Inr (v # vs)))"

text \<open>
  \<open>d_step = d_interp - np.roll(d_interp, 1)\<close> followed by \<open>d_step[0] = d_step[1]\<close>, which
  raises IndexError for fewer than two distances.
\<close>

definition d_step_of :: "real list \<Rightarrow> error + real list" where
  "d_step_of d_interp =
     (let d_step = map2 (\<lambda>a b. a - b) d_interp (roll1 d_interp)
      in if length d_step < 2 then Inl IndexError else Inr (d_step[0 := d_step ! 1]))"

definition get_ebv_lallement ::
  "cube \<Rightarrow> real \<Rightarrow> real \<Rightarrow> real \<Rightarrow> real \<Rightarrow> real \<Rightarrow> real list
   \<Rightarrow> error + (real list \<times> real list \<times> real)" where
  "get_ebv_lallement c l b dmax dmin dstep distances =
     (case (if length distances < 1 then generate_distances dmax dmin dstep
            else Inr distances) of
        Inl e \<Rightarrow> Inl e
      | Inr d_interp \<Rightarrow>
     (case d_step_of d_interp of
        Inl e \<Rightarrow> Inl e
      | Inr d_step \<Rightarrow>
     (case find_max_distance c l b d_interp of
        Inl e \<Rightarrow> Inl e
      | Inr (distMax, inCube, xyz_interp) \<Rightarrow>
     (case rgi_all c xyz_interp of
        Inl e \<Rightarrow> Inl e
      | Inr ebv_interp \<Rightarrow>
          Inr (cumsum (map2 (\<lambda>e s. e * s) ebv_interp d_step), d_interp, distMax)))))"

section \<open>compareExtinctions.py: the class \<open>lineofsight\<close>\<close>

text \<open>\<open>np.min\<close> raises ValueError on an empty array.\<close>

definition np_min :: "real list \<Rightarrow> error + real" where
  "np_min xs = (case xs of [] \<Rightarrow> Inl ValueError | y # ys \<Rightarrow> Inr (fold min ys y))"

text \<open>
  The attributes of \<open>lineofsight\<close> that the distance grid and the two queries use.  The
  attributes \<open>l\<close> and \<open>b\<close> are named \<open>los_l\<close> and \<open>los_b\<close>; \<open>distStepCoarsePc\<close> exists
  only after \<open>generateDistances\<close> has run.  The two model objects \<open>objBovy\<close> and
  \<open>lallementMap\<close> are passed to the methods that call them.
\<close>

record lineofsight =
  los_l :: real
  los_b :: real
  distMaxPc :: real
  distMinPc :: real
  distStepPc :: real
  distMaxCoarsePc :: real
  nDistBins :: int
  Rv :: real
  distsPc :: "real list"
  distLimPc :: real
  distStepCoarsePc :: "real option"
  ebvL19 :: "real list"
  ebvBovy :: "real list"

text \<open>
  \<open>lineofsight.__init__(l, b, distMaxPc, distMinPc, distStepPc, distances, Rv,
  distMaxCoarsePc, nDistBins)\<close>.
\<close>

definition lineofsight_init ::
  "real \<Rightarrow> real \<Rightarrow> real \<Rightarrow> real \<Rightarrow> real \<Rightarrow> real list \<Rightarrow> real \<Rightarrow> real \<Rightarrow> int \<Rightarrow> lineofsight" where
  "lineofsight_init l b dMaxPc dMinPc dStepPc distances rv dMaxCoarsePc nBins =
     \<lparr> los_l = l, los_b = b, distMaxPc = dMaxPc, distMinPc = dMinPc, distStepPc = dStepPc,
       distMaxCoarsePc = dMaxCoarsePc, nDistBins = nBins, Rv = rv,
       distsPc = (if length distances > 0 then distances else []),
       distLimPc = 10 ^ 9, distStepCoarsePc = None, ebvL19 = [], ebvBovy = [] \<rparr>"

text \<open>
  \<open>generateDistances\<close>, in the three stages of its body.  Lines 101-122: the fine array
  out to \<open>distMaxPc\<close>, the largest of its distances inside the cube, the limit five steps
  beyond it, and the fine array regenerated out to that limit.
\<close>

definition distsClose_of :: "cube \<Rightarrow> lineofsight \<Rightarrow> error + (real \<times> real list)" where
  "distsClose_of c self =
     (case generate_distances (distMaxPc self) (distMinPc self) (distStepPc self) of
        Inl e \<Rightarrow> Inl e
      | Inr distsFine \<Rightarrow>
     (case find_max_distance c (los_l self) (los_b self) distsFine of
        Inl e \<Rightarrow> Inl e
      | Inr (distMax, inCube, xyz) \<Rightarrow>
     (let distLim = distMax + 5 * distStepPc self
      in case generate_distances distLim (distMinPc self) (distStepPc self) of
           Inl e \<Rightarrow> Inl e
         | Inr distsClose \<Rightarrow> Inr (distLim, distsClose))))"

text \<open>Lines 125-137: the number of coarse bins, with the fallback to 10.\<close>

definition nBinsFar_of :: "lineofsight \<Rightarrow> real list \<Rightarrow> int" where
  "nBinsFar_of self distsClose =
     (let nBinsFar = nDistBins self - int (length distsClose)
      in if nBinsFar < 0 then 10 else nBinsFar)"

text \<open>
  Lines 144-148: the coarse array by \<open>np.linspace(..., endpoint=False)\<close>, the coarse step
  \<open>distsFar[1] - distsFar[0]\<close>, which raises IndexError for fewer than two coarse bins,
  and the shift by one coarse step.
\<close>

definition distsFar_of :: "lineofsight \<Rightarrow> real list \<Rightarrow> error + (real \<times> real list)" where
  "distsFar_of self distsClose =
     (case np_max distsClose of
        Inl e \<Rightarrow> Inl e
      | Inr mx \<Rightarrow>
     (let distsFar = linspace_open mx (distMaxCoarsePc self) (nat (nBinsFar_of self distsClose))
      in if length distsFar < 2 then Inl IndexError
         else (let stepCoarse = distsFar ! 1 - distsFar ! 0
               in Inr (stepCoarse, map (\<lambda>x. x + stepCoarse) distsFar))))"

text \<open>
  Lines 154-169: the concatenation, the recomputed limits, and the report under
  \<open>Verbose\<close>, whose \<open>distsClose[1] - distsClose[0]\<close> raises IndexError for fewer than two
  fine bins.
\<close>

definition generateDistances :: "cube \<Rightarrow> bool \<Rightarrow> lineofsight \<Rightarrow> error + lineofsight" where
  "generateDistances c Verbose self =
     (case distsClose_of c self of
        Inl e \<Rightarrow> Inl e
      | Inr (distLim, distsClose) \<Rightarrow>
     (case distsFar_of self distsClose of
        Inl e \<Rightarrow> Inl e
      | Inr (stepCoarse, distsFar) \<Rightarrow>
     (let ds = distsClose @ distsFar
      in case np_min ds of Inl e \<Rightarrow> Inl e | Inr mn \<Rightarrow>
         case np_max ds of Inl e \<Rightarrow> Inl e | Inr mx \<Rightarrow>
           if Verbose \<and> length distsClose < 2 then Inl IndexError
           else Inr (self \<lparr> distLimPc := distLim, distStepCoarsePc := Some stepCoarse,
                            distsPc := ds, distMinPc := mn, distMaxPc := mx,
                            distStepPc := (mx - mn) / real (length ds) \<rparr>))))"

section \<open>readExtinction.py: the map object \<open>ebv3d\<close>\<close>

text \<open>
  The fields of \<open>ebv3d\<close> that \<open>getDeltaMag\<close> reads.  \<open>dmods\<close> and \<open>ebvs\<close> are
  (npix, nbins) arrays once a map is loaded.
\<close>

record ebv3d =
  dists :: "real list list"
  ebvs :: "real list list"
  dmods :: "real list list"
  R_x :: "(string \<times> real) list"

text \<open>The dictionary literal of \<open>ebv3d.__init__\<close> (lines 65-66).\<close>

definition R_x_init :: "(string \<times> real) list" where
  "R_x_init = [(''u'', 480 / 100), (''g'', 367 / 100), (''r'', 270 / 100),
               (''i'', 206 / 100), (''z'', 159 / 100), (''y'', 131 / 100)]"

definition ebv3d_init :: ebv3d where
  "ebv3d_init = \<lparr> dists = [], ebvs = [], dmods = [], R_x = R_x_init \<rparr>"

text \<open>\<open>self.R_x[sFilt]\<close>: a missing key raises KeyError.\<close>

definition dict_get :: "(string \<times> real) list \<Rightarrow> string \<Rightarrow> error + real" where
  "dict_get d k = (case map_of d k of None \<Rightarrow> Inl KeyError | Some v \<Rightarrow> Inr v)"

text \<open>
  \<open>(self.dmods[np.newaxis,:] + Rx * self.ebvs)[0]\<close> with numpy's broadcasting: two axis
  lengths are compatible when they are equal or one of them is 1, and ValueError is raised
  otherwise.  A list without rows stands for the empty one-dimensional array of the
  object before a map is loaded, which \<open>np.newaxis\<close> turns into one row of no columns.
\<close>

definition bdim :: "nat \<Rightarrow> nat \<Rightarrow> nat option" where
  "bdim m n = (if m = n then Some m else if m = 1 then Some n
               else if n = 1 then Some m else None)"

definition ncols :: "'a list list \<Rightarrow> nat" where
  "ncols a = (case a of [] \<Rightarrow> 0 | r # rs \<Rightarrow> length r)"

definition bget :: "real list list \<Rightarrow> nat \<Rightarrow> nat \<Rightarrow> real" where
  "bget a i j = a ! (if length a = 1 then 0 else i) ! (if ncols a = 1 then 0 else j)"

definition add_scaled :: "real list list \<Rightarrow> real \<Rightarrow> real list list \<Rightarrow> error + real list list" where
  "add_scaled dm Rx ev =
     (if dm = [] then
        (if ev = [] \<or> ncols ev \<le> 1 then Inr [] else Inl ValueError)
      else if ev = [] then
        (if ncols dm \<le> 1 then Inr (replicate (length dm) []) else Inl ValueError)
      else
        (case bdim (length dm) (length ev) of
           None \<Rightarrow> Inl ValueError
         | Some r \<Rightarrow>
        (case bdim (ncols dm) (ncols ev) of
           None \<Rightarrow> Inl ValueError
         | Some k \<Rightarrow>
             Inr (map (\<lambda>i. map (\<lambda>j. bget dm i j + Rx * bget ev i j) [0..<k]) [0..<r]))))"

definition getDeltaMag :: "ebv3d \<Rightarrow> string \<Rightarrow> error + real list list" where
  "getDeltaMag self sFilt =
     (let sFilt' = (if sFilt \<notin> set (map fst (R_x self)) then ''r'' else sFilt)
      in case dict_get (R_x self) sFilt' of
           Inl e \<Rightarrow> Inl e
         | Inr Rx \<Rightarrow> add_scaled (dmods self) Rx (ebvs self))"

section \<open>compareExtinctions.py: \<open>hybridSightline\<close>\<close>

text \<open>
  The collaborators of \<open>hybridSightline\<close> that are not part of the repository's sources:
  healpy's \<open>nside2resol(nside, arcmin=True)\<close> and \<open>pix2ang(nside, hpid, nested,
  lonlat=True)\<close>, astropy's conversions between galactic and equatorial coordinates (in
  degrees), the method \<open>LallementDustMap.get_ebv\<close> of the L+19 map and the call of the
  Bovy et al. map at one distance in kpc.  They are parameters of the model.
\<close>

record externals =
  nside2resol :: "int \<Rightarrow> real"
  pix2ang :: "int \<Rightarrow> int \<Rightarrow> bool \<Rightarrow> real \<times> real"
  icrs_of_galactic :: "real \<times> real \<Rightarrow> real \<times> real"
  galactic_of_icrs :: "real \<times> real \<Rightarrow> real \<times> real"
  get_ebv :: "real \<Rightarrow> real \<Rightarrow> real \<Rightarrow> real \<Rightarrow> real \<Rightarrow> real list
              \<Rightarrow> error + (real list \<times> real list \<times> real)"
  objBovy :: "real \<Rightarrow> real \<Rightarrow> real \<Rightarrow> real"

text \<open>\<open>getLallementEBV\<close> and \<open>getBovyEBV\<close> (lines 171-206).\<close>

definition getLallementEBV :: "externals \<Rightarrow> lineofsight \<Rightarrow> error + lineofsight" where
  "getLallementEBV ext self =
     (case get_ebv ext (los_l self) (los_b self) (distMaxPc self) (distMinPc self)
             (distStepPc self) (distsPc self) of
        Inl e \<Rightarrow> Inl e
      | Inr (l19, dsts, distLim) \<Rightarrow>
          Inr (if length (distsPc self) < 1
               then self \<lparr> ebvL19 := l19, distsPc := dsts, distLimPc := distLim \<rparr>
               else self \<lparr> ebvL19 := l19 \<rparr>))"

definition getBovyEBV :: "externals \<Rightarrow> lineofsight \<Rightarrow> lineofsight" where
  "getBovyEBV ext self =
     self \<lparr> ebvBovy :=
       map (\<lambda>d. let v = objBovy ext (los_l self) (los_b self) (d / 1000)
                in if v < 0 then 0 else v) (distsPc self) \<rparr>"

text \<open>
  The keyword arguments of \<open>hybridSightline\<close>.  The percentiles and the figure name only
  reach the plotting code and are left out; \<open>Rv\<close> is named \<open>hs_Rv\<close>.
\<close>

record hs_args =
  lCen :: real
  bCen :: real
  nl :: int
  nb :: int
  maxPc :: real
  minPc :: real
  stepPc :: real
  nside :: int
  pixFillFac :: real
  collisionArcmin :: real
  hs_Rv :: real
  distFrac :: real
  diffRatioMin :: real
  setLimDynamically :: bool
  minEBV :: real
  minDistL19 :: real
  returnValues :: bool
  tellTime :: bool
  doPlots :: bool
  useTwoBinnings :: bool
  nBinsAllSightlines :: int
  distancesPc :: "real list"
  hpid :: int
  nested :: bool

text \<open>The defaults of the signature (lines 307-326).\<close>

definition hs_defaults :: hs_args where
  "hs_defaults =
     \<lparr> lCen = 0, bCen = 4, nl = 5, nb = 5, maxPc = 9000, minPc = 1 / 2, stepPc = 25,
       nside = 64, pixFillFac = 1, collisionArcmin = 2, hs_Rv = 31 / 10, distFrac = 1,
       diffRatioMin = 1 / 2, setLimDynamically = True, minEBV = 1 / 1000,
       minDistL19 = 1000, returnValues = False, tellTime = True, doPlots = True,
       useTwoBinnings = True, nBinsAllSightlines = 500, distancesPc = [], hpid = - 1,
       nested = False \<rparr>"

text \<open>
  \<open>np.linspace(start, stop, num, endpoint=True)\<close>: ValueError for a negative \<open>num\<close>, the
  single sample \<open>start\<close> for \<open>num = 1\<close>.
\<close>

definition linspace :: "real \<Rightarrow> real \<Rightarrow> int \<Rightarrow> error + real list" where
  "linspace start stop num =
     (if num < 0 then Inl ValueError
      else if num = 1 then Inr [start]
      else Inr (map (\<lambda>i. start + real i * ((stop - start) / real_of_int (num - 1)))
                  [0..<nat num]))"

text \<open>
  Lines 439-464: the field centre in galactic and equatorial coordinates, and the grid of
  equatorial sample positions (\<open>np.meshgrid\<close> followed by \<open>ravel\<close>: the \<open>l\<close> offsets run
  fastest).
\<close>

definition field_centre :: "externals \<Rightarrow> hs_args \<Rightarrow> (real \<times> real) \<times> (real \<times> real)" where
  "field_centre ext args =
     (if hpid args < 0
      then ((lCen args, bCen args), icrs_of_galactic ext (lCen args, bCen args))
      else (let eq = pix2ang ext (nside args) (hpid args) (nested args)
            in (galactic_of_icrs ext eq, eq)))"

definition sample_grid :: "externals \<Rightarrow> hs_args \<Rightarrow> error + (real \<times> real) list" where
  "sample_grid ext args =
     (let pixSideDeg = nside2resol ext (nside args) / 60;
          pixEdge = min (pixFillFac args) 1
      in case linspace (- 1) 1 (nl args) of Inl e \<Rightarrow> Inl e | Inr uL \<Rightarrow>
         case linspace (- 1) 1 (nb args) of Inl e \<Rightarrow> Inl e | Inr uB \<Rightarrow>
           (let dL = map (\<lambda>u. pixSideDeg * pixEdge * u) uL;
                dB = map (\<lambda>u. pixSideDeg * pixEdge * u) uB;
                raCen = fst (snd (field_centre ext args));
                deCen = snd (snd (field_centre ext args))
            in Inr (concat (map (\<lambda>db. map (\<lambda>dl. (dl + raCen, db + deCen)) dL) dB))))"

text \<open>
  Lines 467-486: samples off the sphere are dropped, the rest is converted to galactic
  coordinates with longitudes above 180 wrapped, and the samples closer to the centre
  than \<open>collisionArcmin\<close> (or with a latitude outside the sphere) are dropped.
\<close>

definition wrap_l :: "real \<times> real \<Rightarrow> real \<times> real" where
  "wrap_l p = (if fst p > 180 then (fst p - 360, snd p) else p)"

definition samples_kept :: "externals \<Rightarrow> hs_args \<Rightarrow> error + (real \<times> real) list" where
  "samples_kept ext args =
     (case sample_grid ext args of
        Inl e \<Rightarrow> Inl e
      | Inr eqs \<Rightarrow>
         (let onSphere = filter (\<lambda>p. snd p \<ge> - 90 \<and> snd p \<le> 90) eqs;
              gal = map (\<lambda>p. wrap_l (galactic_of_icrs ext p)) onSphere;
              cen = fst (field_centre ext args)
          in Inr (filter (\<lambda>p. ((fst p - fst cen)\<^sup>2 + (snd p - snd cen)\<^sup>2) * 3600
                                  > (collisionArcmin args)\<^sup>2
                              \<and> snd p \<ge> - 90 \<and> snd p \<le> 90) gal)))"


text \<open>
  Lines 508-520 and 547-558: the line of sight of the centre, with the two-binning
  distances when no distances were supplied, and the line of sight of one sample.
\<close>

definition losCen_of :: "cube \<Rightarrow> externals \<Rightarrow> hs_args \<Rightarrow> error + lineofsight" where
  "losCen_of c ext args =
     (let cen = fst (field_centre ext args);
          los0 = lineofsight_init (fst cen) (snd cen) (maxPc args) (minPc args) (stepPc args)
                   (distancesPc args) (hs_Rv args) 15000 (nBinsAllSightlines args)
      in case (if useTwoBinnings args \<and> length (distancesPc args) < 1
               then generateDistances c (tellTime args) los0 else Inr los0) of
           Inl e \<Rightarrow> Inl e
         | Inr los1 \<Rightarrow>
        (case getLallementEBV ext los1 of
           Inl e \<Rightarrow> Inl e
         | Inr los2 \<Rightarrow> Inr (getBovyEBV ext los2)))"

definition losThis_of ::
  "externals \<Rightarrow> hs_args \<Rightarrow> lineofsight \<Rightarrow> real \<times> real \<Rightarrow> error + lineofsight" where
  "losThis_of ext args losCen p =
     (let distsInput = (if useTwoBinnings args then distsPc losCen else distancesPc args);
          los0 = lineofsight_init (fst p) (snd p) (maxPc args) (minPc args) (stepPc args)
                   distsInput (hs_Rv args) 15000 400
      in case getLallementEBV ext los0 of
           Inl e \<Rightarrow> Inl e
         | Inr los1 \<Rightarrow> Inr (getBovyEBV ext los1))"

text \<open>
  Lines 540-567: the three stacks, grown by \<open>np.vstack\<close> one sample at a time;
  \<open>np.vstack\<close> raises ValueError for a row of another length.
\<close>

record stacks =
  stackDist :: "real list list"
  stackL19 :: "real list list"
  stackBovy :: "real list list"

definition vstack :: "real list list \<Rightarrow> real list \<Rightarrow> error + real list list" where
  "vstack stack row =
     (if length row \<noteq> length (hd stack) then Inl ValueError else Inr (stack @ [row]))"

fun stack_samples ::
  "externals \<Rightarrow> hs_args \<Rightarrow> lineofsight \<Rightarrow> (real \<times> real) list \<Rightarrow> stacks \<Rightarrow> error + stacks" where
  "stack_samples ext args losCen [] st = Inr st"
| "stack_samples ext args losCen (p # ps) st =
     (case losThis_of ext args losCen p of
        Inl e \<Rightarrow> Inl e
      | Inr losThis \<Rightarrow>
     (case vstack (stackDist st) (distsPc losThis) of
        Inl e \<Rightarrow> Inl e
      | Inr sd \<Rightarrow>
     (case vstack (stackL19 st) (ebvL19 losThis) of
        Inl e \<Rightarrow> Inl e
      | Inr sl \<Rightarrow>
     (case vstack (stackBovy st) (ebvBovy losThis) of
        Inl e \<Rightarrow> Inl e
      | Inr sb \<Rightarrow>
          stack_samples ext args losCen ps
            \<lparr> stackDist = sd, stackL19 = sl, stackBovy = sb \<rparr>))))"

text \<open>
  Lines 581-600: the comparison distance, by default a fraction of the limit of the
  central line of sight, or under \<open>setLimDynamically\<close> the largest distance at which the
  two medians agree within \<open>diffRatioMin\<close>, if there is one beyond \<open>minDistL19\<close>.
\<close>

definition bNear ::
  "hs_args \<Rightarrow> real \<Rightarrow> real list \<Rightarrow> real list \<Rightarrow> real list \<Rightarrow> nat \<Rightarrow> bool" where
  "bNear args distLim distsMed ebvL19Med ebvBovyMed j =
     (distsMed ! j \<le> distLim \<and> ebvL19Med ! j > 0 \<and> ebvBovyMed ! j > 0
      \<and> \<bar>ebvBovyMed ! j / ebvL19Med ! j - 1\<bar> < diffRatioMin args)"

definition distCompare_of ::
  "hs_args \<Rightarrow> real \<Rightarrow> real list \<Rightarrow> real list \<Rightarrow> real list \<Rightarrow> error + real" where
  "distCompare_of args distLim distsMed ebvL19Med ebvBovyMed =
     (let distCompare = distLim * distFrac args;
          near = map (\<lambda>j. distsMed ! j)
                   (filter (bNear args distLim distsMed ebvL19Med ebvBovyMed)
                      [0..<length distsMed])
      in if setLimDynamically args \<and> length near > 0
         then (case np_max near of
                 Inl e \<Rightarrow> Inl e
               | Inr distMinCalc \<Rightarrow>
                   Inr (if distMinCalc > minDistL19 args then distMinCalc else distCompare))
         else Inr distCompare)"

text \<open>
  Lines 607-611: the bin nearest the comparison distance and the scale factor.  The
  quotient \<open>quadFactor\<close> of line 615 is never used.
\<close>

definition iMaxL19_of :: "real list \<Rightarrow> real \<Rightarrow> error + nat" where
  "iMaxL19_of distsMed distCompare = argmin (map (\<lambda>d. \<bar>d - distCompare\<bar>) distsMed)"

definition rvFactor_of :: "real \<Rightarrow> real list \<Rightarrow> real list \<Rightarrow> nat \<Rightarrow> error + real" where
  "rvFactor_of minEBV' ebvL19Med ebvBovyMed iMaxL19 =
     (if ebvBovyMed ! iMaxL19 > minEBV'
      then fdiv (ebvL19Med ! iMaxL19) (ebvBovyMed ! iMaxL19)
      else Inr 1)"

text \<open>
  Lines 621-634: the hybrid curve.  It starts as the Bovy median, takes the rescaled
  L+19 median where \<open>distsMed < distCompare\<close>, and then again wherever the value so far
  is below \<open>minEBV\<close>.
\<close>

definition ebvL19scaled_of :: "real list \<Rightarrow> real \<Rightarrow> error + real list" where
  "ebvL19scaled_of ebvL19Med rvFactor =
     (if rvFactor = 0 \<and> ebvL19Med \<noteq> [] then Inl NotFinite
      else Inr (map (\<lambda>v. v / rvFactor) ebvL19Med))"

definition ebvHybrid_of ::
  "real \<Rightarrow> real \<Rightarrow> real list \<Rightarrow> real list \<Rightarrow> real list \<Rightarrow> real list" where
  "ebvHybrid_of minEBV' distCompare distsMed ebvBovyMed ebvL19scaled =
     map (\<lambda>j. let h = (if distsMed ! j < distCompare then ebvL19scaled ! j
                       else ebvBovyMed ! j)
              in if h < minEBV' then ebvL19scaled ! j else h)
       [0..<length distsMed]"

text \<open>
  The statistics of lines 571-634 on the three medians.  The medians are parallel arrays
  in every run that gets this far; if \<open>get_ebv\<close> returned an array of another length,
  numpy raises on the way: ValueError when the ratio of line 592 cannot be broadcast, and
  IndexError at the latest in the boolean indexing of line 630.
\<close>

record hybrid_stats =
  distCompare :: real
  iMaxL19 :: nat
  rvFactor :: real
  ebvHybrid :: "real list"

definition merge_medians ::
  "hs_args \<Rightarrow> real \<Rightarrow> real list \<Rightarrow> real list \<Rightarrow> real list \<Rightarrow> error + hybrid_stats" where
  "merge_medians args distLim distsMed ebvL19Med ebvBovyMed =
     (if length ebvL19Med \<noteq> length distsMed \<or> length ebvBovyMed \<noteq> length distsMed
      then (if setLimDynamically args \<and> length ebvL19Med \<noteq> 1 \<and> length distsMed \<noteq> 1
            then Inl ValueError else Inl IndexError)
      else
     (case distCompare_of args distLim distsMed ebvL19Med ebvBovyMed of
        Inl e \<Rightarrow> Inl e
      | Inr dc \<Rightarrow>
     (case iMaxL19_of distsMed dc of
        Inl e \<Rightarrow> Inl e
      | Inr i \<Rightarrow>
     (case rvFactor_of (minEBV args) ebvL19Med ebvBovyMed i of
        Inl e \<Rightarrow> Inl e
      | Inr f \<Rightarrow>
     (case ebvL19scaled_of ebvL19Med f of
        Inl e \<Rightarrow> Inl e
      | Inr scaled \<Rightarrow>
          Inr \<lparr> distCompare = dc, iMaxL19 = i, rvFactor = f,
                ebvHybrid = ebvHybrid_of (minEBV args) dc distsMed ebvBovyMed scaled \<rparr>)))))"

text \<open>
  \<open>hybridSightline\<close>.  Without kept samples it reports and returns \<open>None\<close> (lines
  488-490).  The plotting of lines 523-536 and 652-745 draws and saves a figure and
  changes no value.  The function returns a triple only under \<open>returnValues\<close>: with
  \<open>doPlots\<close> unset the one of line 648, otherwise the one of line 748.
\<close>

definition hybridSightline ::
  "cube \<Rightarrow> externals \<Rightarrow> hs_args \<Rightarrow> error + (real list \<times> real list \<times> real) option" where
  "hybridSightline c ext args =
     (case samples_kept ext args of
        Inl e \<Rightarrow> Inl e
      | Inr kept \<Rightarrow>
     (if length kept < 1 then Inr None
      else
     (case losCen_of c ext args of
        Inl e \<Rightarrow> Inl e
      | Inr losCen \<Rightarrow>
     (case stack_samples ext args losCen kept
             \<lparr> stackDist = [distsPc losCen], stackL19 = [ebvL19 losCen],
               stackBovy = [ebvBovy losCen] \<rparr> of
        Inl e \<Rightarrow> Inl e
      | Inr st \<Rightarrow>
     (let distsMed = median_axis0 (stackDist st);
          ebvL19Med = median_axis0 (stackL19 st);
          ebvBovyMed = median_axis0 (stackBovy st)
      in case merge_medians args (distLimPc losCen) distsMed ebvL19Med ebvBovyMed of
           Inl e \<Rightarrow> Inl e
         | Inr r \<Rightarrow>
             (if \<not> doPlots args
              then (if returnValues args then Inr (Some (ebvHybrid r, distsMed, 1))
                    else Inr None)
              else (if returnValues args
                    then Inr (Some (ebvHybrid r, distsMed, rvFactor r))
                    else Inr None)))))))"


section \<open>compareExtinctions.py: the tiles and the merged map\<close>

text \<open>
  A FITS file as \<open>writeExtmap\<close> lays it out: the pixel ids with the header in the primary
  HDU, then the distances, the extinctions, the scale factors and the mask.  Of the
  header only the keywords that \<open>mergeMaps\<close> reads are kept, each present or not.  A
  file may have been written without the fifth HDU (\<open>None\<close>), and \<open>writeExtmap\<close> called
  without a mask writes an empty one.
\<close>

record fits_header =
  h_NSIDE :: "int option"
  h_NESTED :: "bool option"
  h_NBINS :: "int option"

record extmap_file =
  primary :: "int list"
  header :: fits_header
  hdu_dists :: "real list list"
  hdu_ebvs :: "real list list"
  hdu_sfacs :: "real list"
  hdu_masks :: "nat list list option"

text \<open>\<open>writeExtmap\<close> (lines 875-911): nothing is written for an empty pixel list.\<close>

definition writeExtmap ::
  "int list \<Rightarrow> real list list \<Rightarrow> real list list \<Rightarrow> real list \<Rightarrow> nat list list
   \<Rightarrow> fits_header \<Rightarrow> extmap_file option" where
  "writeExtmap hpids dsts es sfs masks hdr =
     (if length hpids < 1 then None
      else Some \<lparr> primary = hpids, header = hdr, hdu_dists = dsts, hdu_ebvs = es,
                  hdu_sfacs = sfs, hdu_masks = Some masks \<rparr>)"

section \<open>compareExtinctions.py: \<open>loopSightlines\<close>\<close>

text \<open>
  The arguments of \<open>loopSightlines\<close> that reach the computation (the output path does
  not); \<open>nside\<close>, \<open>nested\<close>, \<open>nl\<close>, \<open>nb\<close> and \<open>tellTime\<close> carry the prefix \<open>ls\<close>.
\<close>

record loop_args =
  ls_nside :: int
  imin :: int
  imax :: int
  nbins :: int
  ls_nested :: bool
  ls_nl :: int
  ls_nb :: int
  ls_tellTime :: bool
  reportInterval :: int
  fracPix :: real

definition loop_defaults :: loop_args where
  "loop_defaults =
     \<lparr> ls_nside = 64, imin = 0, imax = 25, nbins = 300, ls_nested = False, ls_nl = 5,
       ls_nb = 5, ls_tellTime = False, reportInterval = 100, fracPix = 1 \<rparr>"

text \<open>\<open>hp.nside2npix\<close> and lines 787-797: the range of pixel ids.\<close>

definition nside2npix :: "int \<Rightarrow> int" where
  "nside2npix n = 12 * n * n"

definition hpid_range :: "loop_args \<Rightarrow> int \<times> int" where
  "hpid_range args =
     (let npix = nside2npix (ls_nside args);
          imax' = (if imax args < 0 \<or> imax args > npix then npix else imax args);
          imin' = (if imin args > imax' then max (imax' - 25) 0 else imin args)
      in (imin', imax'))"

text \<open>The call of lines 840-854.\<close>

definition loop_call :: "loop_args \<Rightarrow> int \<Rightarrow> hs_args" where
  "loop_call args h =
     hs_defaults \<lparr> lCen := 0, bCen := 0, nl := ls_nl args, nb := ls_nb args,
                   setLimDynamically := False, useTwoBinnings := True,
                   nBinsAllSightlines := nbins args, hs_Rv := 31 / 10,
                   pixFillFac := fracPix args, nested := ls_nested args,
                   nside := ls_nside args, doPlots := False,
                   tellTime := ls_tellTime args, returnValues := True, hpid := h \<rparr>"

text \<open>
  \<open>dists[iHP] = distsThis\<close>: the row takes an array of its own length or of length 1, and
  numpy raises ValueError for any other.
\<close>

definition set_row :: "real list list \<Rightarrow> nat \<Rightarrow> real list \<Rightarrow> error + real list list" where
  "set_row arr i row =
     (if length row = length (arr ! i) then Inr (arr[i := row])
      else if length row = 1 then Inr (arr[i := replicate (length (arr ! i)) (hd row)])
      else Inl ValueError)"

record loop_state =
  st_dists :: "real list list"
  st_ebvs :: "real list list"
  st_sfacs :: "real list"
  st_written :: "extmap_file list"

definition loop_header :: "loop_args \<Rightarrow> fits_header" where
  "loop_header args =
     \<lparr> h_NSIDE = Some (ls_nside args), h_NESTED = Some (ls_nested args),
       h_NBINS = Some (nbins args) \<rparr>"

definition flush :: "loop_args \<Rightarrow> int list \<Rightarrow> loop_state \<Rightarrow> loop_state" where
  "flush args hpids st =
     (case writeExtmap hpids (st_dists st) (st_ebvs st) (st_sfacs st) [] (loop_header args) of
        None \<Rightarrow> st
      | Some f \<Rightarrow> st \<lparr> st_written := st_written st @ [f] \<rparr>)"

text \<open>
  One turn of the loop of lines 839-870 for the row \<open>iHP\<close>.  Unpacking the \<open>None\<close> that
  \<open>hybridSightline\<close> returns without kept samples raises TypeError, and \<open>iHP %
  reportInterval\<close> raises ZeroDivisionError for a zero interval.
\<close>

definition loop_turn ::
  "cube \<Rightarrow> externals \<Rightarrow> loop_args \<Rightarrow> int list \<Rightarrow> nat \<Rightarrow> loop_state \<Rightarrow> error + loop_state" where
  "loop_turn c ext args hpids iHP st =
     (case hybridSightline c ext (loop_call args (hpids ! iHP)) of
        Inl e \<Rightarrow> Inl e
      | Inr None \<Rightarrow> Inl TypeError
      | Inr (Some (ebvsThis, distsThis, rvFac)) \<Rightarrow>
     (case set_row (st_dists st) iHP distsThis of
        Inl e \<Rightarrow> Inl e
      | Inr ds \<Rightarrow>
     (case set_row (st_ebvs st) iHP ebvsThis of
        Inl e \<Rightarrow> Inl e
      | Inr es \<Rightarrow>
     (let st' = st \<lparr> st_dists := ds, st_ebvs := es,
                      st_sfacs := (st_sfacs st)[iHP := rvFac] \<rparr>
      in if int iHP \<ge> reportInterval args
         then (if reportInterval args = 0 then Inl ZeroDivisionError
               else if int iHP mod reportInterval args < 1
                    then Inr (flush args hpids st') else Inr st')
         else Inr st'))))"

text \<open>
  The loop stops at the first exception; the files written before it stay on disk.  The
  result of a run is the list of the files written, in order, and the exception if one
  ended the run.
\<close>

fun loop_from ::
  "cube \<Rightarrow> externals \<Rightarrow> loop_args \<Rightarrow> int list \<Rightarrow> nat list \<Rightarrow> loop_state
   \<Rightarrow> loop_state \<times> error option" where
  "loop_from c ext args hpids [] st = (st, None)"
| "loop_from c ext args hpids (iHP # rest) st =
     (case loop_turn c ext args hpids iHP st of
        Inl e \<Rightarrow> (st, Some e)
      | Inr st' \<Rightarrow> loop_from c ext args hpids rest st')"

record loop_outcome =
  files_written :: "extmap_file list"
  exception :: "error option"

definition loopSightlines :: "cube \<Rightarrow> externals \<Rightarrow> loop_args \<Rightarrow> loop_outcome" where
  "loopSightlines c ext args =
     (let r = hpid_range args;
          hpids = [fst r .. snd r - 1];
          nSightlines = length hpids
      in if nbins args < 0
         then \<lparr> files_written = [], exception = Some ValueError \<rparr>
         else
          (case loop_from c ext args hpids [0..<nSightlines]
                  \<lparr> st_dists = replicate nSightlines (replicate (nat (nbins args)) 0),
                    st_ebvs = replicate nSightlines (replicate (nat (nbins args)) 0),
                    st_sfacs = replicate nSightlines 1, st_written = [] \<rparr> of
             (st, Some e) \<Rightarrow> \<lparr> files_written = st_written st, exception = Some e \<rparr>
           | (st, None) \<Rightarrow>
               \<lparr> files_written = st_written (flush args hpids st), exception = None \<rparr>))"


section \<open>compareExtinctions.py: \<open>mergeMaps\<close>\<close>

text \<open>
  The master arrays of lines 959-963.  The mask follows the convention stated there: it
  is 0 (false) for good points; it starts as all ones.
\<close>

record master =
  distsMaster :: "real list list"
  ebvsMaster :: "real list list"
  sfacsMaster :: "real list"
  maskMaster :: "nat list list"

text \<open>
  An index array into an axis of length \<open>n\<close>: negative indices count from the end, and
  an index outside \<open>[-n, n)\<close> raises IndexError.
\<close>

definition py_index :: "nat \<Rightarrow> int \<Rightarrow> error + nat" where
  "py_index n i =
     (if 0 \<le> i \<and> i < int n then Inr (nat i)
      else if - int n \<le> i \<and> i < 0 then Inr (nat (i + int n))
      else Inl IndexError)"

fun py_indices :: "nat \<Rightarrow> int list \<Rightarrow> error + nat list" where
  "py_indices n [] = Inr []"
| "py_indices n (i # rest) =
     (case py_index n i of
        Inl e \<Rightarrow> Inl e
      | Inr j \<Rightarrow> (case py_indices n rest of Inl e \<Rightarrow> Inl e | Inr js \<Rightarrow> Inr (j # js)))"

text \<open>
  \<open>arr[rowsThis] = data\<close> for a two-dimensional \<open>arr\<close>: the data must broadcast to one
  row of the width of \<open>arr\<close> per index (ValueError otherwise), and the rows are stored in
  the order of the indices, so the last one wins for a repeated index.
\<close>

definition broadcast_row :: "nat \<Rightarrow> 'a list \<Rightarrow> 'a list" where
  "broadcast_row n row = (if length row = 1 then replicate n (hd row) else row)"

fun store_rows :: "'a list list \<Rightarrow> (nat \<times> 'a list) list \<Rightarrow> 'a list list" where
  "store_rows arr [] = arr"
| "store_rows arr ((i, row) # rest) = store_rows (arr[i := row]) rest"

definition assign_rows ::
  "'a list list \<Rightarrow> nat \<Rightarrow> nat list \<Rightarrow> 'a list list \<Rightarrow> error + 'a list list" where
  "assign_rows arr n idx data =
     (if idx = [] \<and> data = [] then Inr arr
      else if (length data = length idx \<or> length data = 1)
              \<and> (ncols data = n \<or> ncols data = 1)
      then Inr (store_rows arr
                  (map (\<lambda>k. (idx ! k,
                              broadcast_row n (data ! (if length data = 1 then 0 else k))))
                     [0..<length idx]))
      else Inl ValueError)"

text \<open>\<open>sfacsMaster[rowsThis] = data\<close> for the one-dimensional array.\<close>

fun store_vals :: "'a list \<Rightarrow> (nat \<times> 'a) list \<Rightarrow> 'a list" where
  "store_vals arr [] = arr"
| "store_vals arr ((i, v) # rest) = store_vals (arr[i := v]) rest"

definition assign_vals :: "'a list \<Rightarrow> nat list \<Rightarrow> 'a list \<Rightarrow> error + 'a list" where
  "assign_vals arr idx data =
     (if length data = length idx \<or> length data = 1
      then Inr (store_vals arr
                  (map (\<lambda>k. (idx ! k, data ! (if length data = 1 then 0 else k)))
                     [0..<length idx]))
      else Inl ValueError)"

text \<open>
  Lines 978-985: a tile has mask data when the file has a fifth HDU of nonzero size.
  With mask data the rows of the tile's pixel ids take it; without, \<open>maskMaster[rowsThis,
  :] = 0\<close> sets them to 0.
\<close>

definition np_size2 :: "'a list list \<Rightarrow> nat" where
  "np_size2 a = sum_list (map length a)"

definition hasMask :: "extmap_file \<Rightarrow> bool" where
  "hasMask t = (case hdu_masks t of None \<Rightarrow> False | Some m \<Rightarrow> np_size2 m > 0)"

definition zero_rows :: "nat list list \<Rightarrow> nat \<Rightarrow> nat list \<Rightarrow> nat list list" where
  "zero_rows arr n idx = store_rows arr (map (\<lambda>i. (i, replicate n 0)) idx)"

text \<open>The body of the loop of lines 966-988 for one tile.\<close>

definition slot_tile :: "nat \<Rightarrow> nat \<Rightarrow> master \<Rightarrow> extmap_file \<Rightarrow> error + master" where
  "slot_tile npix nbins' m t =
     (case py_indices npix (primary t) of
        Inl e \<Rightarrow> Inl e
      | Inr rowsThis \<Rightarrow>
     (case assign_rows (distsMaster m) nbins' rowsThis (hdu_dists t) of
        Inl e \<Rightarrow> Inl e
      | Inr ds \<Rightarrow>
     (case assign_rows (ebvsMaster m) nbins' rowsThis (hdu_ebvs t) of
        Inl e \<Rightarrow> Inl e
      | Inr es \<Rightarrow>
     (case assign_vals (sfacsMaster m) rowsThis (hdu_sfacs t) of
        Inl e \<Rightarrow> Inl e
      | Inr ss \<Rightarrow>
     (case (if hasMask t
            then assign_rows (maskMaster m) nbins' rowsThis (the (hdu_masks t))
            else Inr (zero_rows (maskMaster m) nbins' rowsThis)) of
        Inl e \<Rightarrow> Inl e
      | Inr ms \<Rightarrow>
          Inr \<lparr> distsMaster = ds, ebvsMaster = es, sfacsMaster = ss, maskMaster = ms \<rparr>)))))"

fun slot_all :: "nat \<Rightarrow> nat \<Rightarrow> master \<Rightarrow> extmap_file list \<Rightarrow> error + master" where
  "slot_all npix nbins' m [] = Inr m"
| "slot_all npix nbins' m (t # ts) =
     (case slot_tile npix nbins' m t of
        Inl e \<Rightarrow> Inl e
      | Inr m' \<Rightarrow> slot_all npix nbins' m' ts)"

text \<open>
  \<open>mergeMaps\<close> on the tiles found by the search, in the order of the path list.  It
  returns early without tiles, and when a keyword is missing from the first header; the
  result here is the merged file as \<open>writeExtmap\<close> writes it.
\<close>

definition master_init :: "nat \<Rightarrow> nat \<Rightarrow> master" where
  "master_init npix nbins' =
     \<lparr> distsMaster = replicate npix (replicate nbins' 0),
       ebvsMaster = replicate npix (replicate nbins' 0),
       sfacsMaster = replicate npix 0,
       maskMaster = replicate npix (replicate nbins' 1) \<rparr>"

definition mergeMaps :: "extmap_file list \<Rightarrow> error + extmap_file option" where
  "mergeMaps lPaths =
     (if length lPaths < 1 then Inr None
      else (let hdr0 = header (hd lPaths)
            in if h_NESTED hdr0 = None \<or> h_NSIDE hdr0 = None \<or> h_NBINS hdr0 = None
               then Inr None
               else if the (h_NBINS hdr0) < 0 then Inl ValueError
               else
                (let npix = nat (nside2npix (the (h_NSIDE hdr0)));
                     nbins' = nat (the (h_NBINS hdr0))
                 in case slot_all npix nbins' (master_init npix nbins') lPaths of
                      Inl e \<Rightarrow> Inl e
                    | Inr m \<Rightarrow>
                        Inr (writeExtmap [0 .. int npix - 1] (distsMaster m) (ebvsMaster m)
                               (sfacsMaster m) (maskMaster m) hdr0))))"

section \<open>Concrete inputs\<close>

text \<open>A cube of 3 x 3 x 3 unit densities with step 10 and the sun at grid index 1.\<close>

definition cube0 :: cube where
  "cube0 = \<lparr> cube_datas = (\<lambda>i j k. 1), nx = 3, ny = 3, nz = 3,
             stepx = 10, stepy = 10, stepz = 10, sunx = 1, suny = 1, sunz = 1 \<rparr>"

text \<open>The same cube stored with descending axes (negative grid steps).\<close>

definition cube_desc :: cube where
  "cube_desc = \<lparr> cube_datas = (\<lambda>i j k. 1), nx = 3, ny = 3, nz = 3,
                 stepx = - 10, stepy = - 10, stepz = - 10, sunx = 1, suny = 1, sunz = 1 \<rparr>"

text \<open>
  Three sight lines through \<open>cube0\<close> towards \<open>l = 0, b = 0\<close> with the fine grid
  \<open>1, 2, ..., 8\<close>: with 9 bins in total (one coarse bin), with 10 bins in total (two
  coarse bins), and one with a negative fine step.
\<close>

definition los_short :: lineofsight where
  "los_short = lineofsight_init 0 0 3 1 1 [] (31 / 10) 15000 9"

definition los_ok :: lineofsight where
  "los_ok = lineofsight_init 0 0 3 1 1 [] (31 / 10) 15000 10"

definition los_neg :: lineofsight where
  "los_neg = lineofsight_init 0 0 1 3 (- 1) [] (31 / 10) 15000 8"

section \<open>Properties of the interpolator and the line integral\<close>

lemma rgi_total: "rgi_built c \<Longrightarrow> \<exists>v. rgi c p = Inr v"
  by (cases p) (auto simp add: rgi_def rgi_built_def RegularGridInterpolator_def Let_def)

lemma ascending_sorted: "valid_axis g \<Longrightarrow> sorted_wrt (<) (ascending g)"
  by (auto simp add: valid_axis_def ascending_def sorted_wrt_rev)

lemma ascending_bounds:
  assumes "valid_axis g"
  shows "hd (ascending g) = Min (set g)" and "last (ascending g) = Max (set g)"
proof -
  let ?a = "ascending g"
  have ne: "?a \<noteq> []" and st: "set ?a = set g"
    using assms by (auto simp add: valid_axis_def ascending_def)
  have s: "sorted ?a"
    using ascending_sorted [OF assms] by (rule strict_sorted_imp_sorted)
  have "hd ?a = Min (set ?a)"
  proof (rule sym, rule Min_eqI)
    show "finite (set ?a)" by simp
    show "hd ?a \<in> set ?a" using ne by simp
    fix y assume "y \<in> set ?a"
    then show "hd ?a \<le> y" using s ne by (cases ?a) auto
  qed
  then show "hd ?a = Min (set g)" using st by simp
  have "last ?a = Max (set ?a)"
  proof (rule sym, rule Max_eqI)
    show "finite (set ?a)" by simp
    show "last ?a \<in> set ?a" using ne by simp
    fix y assume "y \<in> set ?a"
    then show "y \<le> last ?a" using s ne by (cases ?a rule: rev_cases) (auto simp add: sorted_append)
  qed
  then show "last ?a = Max (set g)" using st by simp
qed

lemma out_of_bounds_iff:
  "valid_axis g \<Longrightarrow> out_of_bounds g x = (x < Min (set g) \<or> Max (set g) < x)"
  by (simp add: out_of_bounds_def ascending_bounds)

text \<open>
  C6.  On a cube for which the interpolator exists, a query point that lies below the
  least or above the greatest grid value on at least one axis gets exactly 0 from the
  interpolator: no error is raised and nothing is extrapolated.
\<close>

theorem rgi_outside_bounds_zero:
  assumes "rgi_built c"
    and "x < Min (set (x0 c)) \<or> Max (set (x0 c)) < x
         \<or> y < Min (set (y0 c)) \<or> Max (set (y0 c)) < y
         \<or> z < Min (set (z0 c)) \<or> Max (set (z0 c)) < z"
  shows "rgi c (x, y, z) = Inr 0"
proof -
  have v: "valid_axis (x0 c)" "valid_axis (y0 c)" "valid_axis (z0 c)"
    using assms(1) by (simp_all add: rgi_built_def)
  have "out_of_bounds (x0 c) x \<or> out_of_bounds (y0 c) y \<or> out_of_bounds (z0 c) z"
    using assms(2) v by (simp add: out_of_bounds_iff)
  then show ?thesis
    using v by (simp add: rgi_def RegularGridInterpolator_def Let_def)
qed

lemma axis3: "axis 3 10 1 = [-10, 0, 10]"
  by (simp add: axis_def upt_rec)

lemma axis3_desc: "axis 3 (- 10) 1 = [10, 0, - 10]"
  by (simp add: axis_def upt_rec)

lemma valid3: "valid_axis [-10, 0, 10]" "valid_axis [10, 0, - 10]"
  by (simp_all add: valid_axis_def)

lemma asc3: "ascending [-10, 0, 10] = [-10, 0, 10]" "ascending [10, 0, - 10] = [-10, 0, 10]"
  by (simp_all add: ascending_def)

lemma rgi_built_cube0: "rgi_built cube0"
  by (simp add: rgi_built_def x0_def y0_def z0_def cube0_def axis3 valid3)

lemma rgi_built_cube_desc: "rgi_built cube_desc"
  by (simp add: rgi_built_def x0_def y0_def z0_def cube_desc_def axis3_desc valid3)

text \<open>
  Inside a cube with descending axes the interpolator interpolates, and outside it
  fills with 0, as on the ascending cube.
\<close>

lemma rgi_cube_desc_inside: "rgi cube_desc (5, 0, 0) = Inr 1"
  by (simp add: rgi_def RegularGridInterpolator_def x0_def y0_def z0_def cube_desc_def
      axis3_desc valid3 asc3 out_of_bounds_def evaluate_linear_def find_index_def
      norm_distance_def edge_weight_def)

lemma cumsum_from_ge: "\<forall>x\<in>set xs. 0 \<le> x \<Longrightarrow> \<forall>y\<in>set (cumsum_from acc xs). acc \<le> y"
proof (induction xs arbitrary: acc)
  case Nil
  then show ?case by simp
next
  case (Cons a xs)
  then have "\<forall>y\<in>set (cumsum_from (acc + a) xs). acc + a \<le> y" by simp
  with Cons.prems show ?case by fastforce
qed

lemma sorted_cumsum_from: "\<forall>x\<in>set xs. 0 \<le> x \<Longrightarrow> sorted (cumsum_from acc xs)"
proof (induction xs arbitrary: acc)
  case Nil
  then show ?case by simp
next
  case (Cons a xs)
  then show ?case using cumsum_from_ge [of xs "acc + a"] by simp
qed

lemma length_cumsum_from: "length (cumsum_from acc xs) = length xs"
  by (induction xs arbitrary: acc) simp_all

lemma roll1_nth:
  assumes "i < length d"
  shows "roll1 d ! i = (if i = 0 then last d else d ! (i - 1))"
  using assms by (cases i) (auto simp add: roll1_def nth_butlast)

lemma d_step_of_pos:
  assumes "sorted_wrt (<) d" and "d_step_of d = Inr s"
  shows "length s = length d \<and> (\<forall>x\<in>set s. 0 < x)"
proof -
  define s0 where "s0 = map2 (\<lambda>a b. a - b) d (roll1 d)"
  have len_roll: "length (roll1 d) = length d"
    by (cases "d = []") (simp_all add: roll1_def)
  have len0: "length s0 = length d" using len_roll by (simp add: s0_def)
  from assms(2) have n2: "2 \<le> length d" and s: "s = s0[0 := s0 ! 1]"
    using len0 unfolding d_step_of_def Let_def s0_def [symmetric]
    by (auto split: if_splits)
  have inc: "d ! (i - 1) < d ! i" if "0 < i" "i < length d" for i
    using assms(1) that by (simp add: sorted_wrt_iff_nth_less)
  have s0: "s0 ! i = d ! i - d ! (i - 1)" if "0 < i" "i < length d" for i
    using len_roll that by (simp add: s0_def roll1_nth)
  have pos: "0 < s ! i" if i: "i < length s" for i
  proof -
    have il: "i < length d" using i s len0 by simp
    show "0 < s ! i"
    proof (cases "i = 0")
      case True
      have "0 < length s0" using len0 n2 by linarith
      then have "s ! 0 = s0 ! 1" unfolding s by simp
      also have "\<dots> = d ! 1 - d ! 0" using s0 [of 1] n2 by simp
      finally show ?thesis using inc [of 1] n2 True by simp
    next
      case False
      then have "s ! i = s0 ! i" unfolding s by simp
      also have "\<dots> = d ! i - d ! (i - 1)" using s0 [of i] False il by simp
      finally show ?thesis using inc [of i] False il by simp
    qed
  qed
  then have "\<forall>x\<in>set s. 0 < x" by (auto simp add: in_set_conv_nth)
  moreover have "length s = length d" using s len0 by simp
  ultimately show ?thesis by simp
qed

lemma rgi_all_Inr:
  "rgi_all c ps = Inr vs \<Longrightarrow> list_all2 (\<lambda>p v. rgi c p = Inr v) ps vs"
  by (induction ps arbitrary: vs) (auto split: sum.splits)


lemma find_max_distance_xyz:
  assumes "find_max_distance c l b ds = Inr (distMax, inCube, xyz)"
  shows "xyz = map (gal_to_xyz l b) ds"
  using assms by (auto simp add: find_max_distance_def split: if_splits sum.splits)

lemma np_max_Inr: "xs \<noteq> [] \<Longrightarrow> \<exists>m. np_max xs = Inr m"
  by (cases xs) (simp_all add: np_max_def)

lemma rgi_all_total: "rgi_built c \<Longrightarrow> \<exists>vs. rgi_all c ps = Inr vs"
proof (induction ps)
  case Nil
  then show ?case by simp
next
  case (Cons p ps)
  obtain v where "rgi c p = Inr v" using rgi_total [OF Cons.prems] by blast
  moreover obtain vs where "rgi_all c ps = Inr vs" using Cons.IH [OF Cons.prems] by blast
  ultimately show ?case by simp
qed

text \<open>
  C7.  For a strictly increasing supplied distance array of length at least 2 and any
  direction \<open>(l, b)\<close>, if the interpolated density is nonnegative at every point of the
  ray, then the cumulative E(B-V) array returned by \<open>get_ebv_lallement\<close> is
  non-decreasing in the bin index (and has one value per distance).
\<close>

theorem get_ebv_lallement_nondecreasing:
  assumes inc: "sorted_wrt (<) distances"
    and len: "2 \<le> length distances"
    and dens: "\<forall>d\<in>set distances. \<exists>v\<ge>0. rgi c (gal_to_xyz l b d) = Inr v"
    and ret: "get_ebv_lallement c l b dmax dmin dstep distances = Inr (cum, d_interp, distMax)"
  shows "sorted cum \<and> length cum = length distances"
proof -
  have nl: "\<not> length distances < 1" using len by linarith
  from ret nl obtain d_step inCube xyz ebv_interp where
    ds: "d_step_of distances = Inr d_step" and
    fm: "find_max_distance c l b distances = Inr (distMax, inCube, xyz)" and
    ra: "rgi_all c xyz = Inr ebv_interp" and
    cum: "cum = cumsum (map2 (\<lambda>e s. e * s) ebv_interp d_step)"
    by (auto simp add: get_ebv_lallement_def split: sum.splits)
  have xyz: "xyz = map (gal_to_xyz l b) distances"
    using fm by (rule find_max_distance_xyz)
  have step: "length d_step = length distances" "\<forall>x\<in>set d_step. 0 < x"
    using d_step_of_pos [OF inc ds] by simp_all
  have l2: "list_all2 (\<lambda>p v. rgi c p = Inr v) xyz ebv_interp"
    using ra by (rule rgi_all_Inr)
  then have le: "length ebv_interp = length distances"
    using xyz by (auto dest: list_all2_lengthD)
  have nonneg: "0 \<le> ebv_interp ! i" if "i < length distances" for i
  proof -
    have r: "rgi c (xyz ! i) = Inr (ebv_interp ! i)"
      using l2 that xyz by (simp add: list_all2_conv_all_nth)
    have p: "xyz ! i = gal_to_xyz l b (distances ! i)"
      using xyz that by simp
    have "distances ! i \<in> set distances" using that by simp
    then obtain v where "0 \<le> v" "rgi c (gal_to_xyz l b (distances ! i)) = Inr v"
      using dens by blast
    then show ?thesis using r p by simp
  qed
  have "\<forall>x\<in>set (map2 (\<lambda>e s. e * s) ebv_interp d_step). 0 \<le> x"
  proof
    fix x assume "x \<in> set (map2 (\<lambda>e s. e * s) ebv_interp d_step)"
    then obtain i where i: "i < length distances"
      and x: "x = ebv_interp ! i * d_step ! i"
      using le step(1) by (auto simp add: in_set_conv_nth)
    have "0 < d_step ! i" using step i by simp
    then show "0 \<le> x" using nonneg [OF i] x by simp
  qed
  then have "sorted cum" unfolding cum cumsum_def by (rule sorted_cumsum_from)
  moreover have "length cum = length distances"
    unfolding cum cumsum_def using le step(1) by (simp add: length_cumsum_from)
  ultimately show ?thesis by simp
qed

lemma get_ebv_lallement_returns:
  assumes built: "rgi_built c"
    and len: "2 \<le> length distances"
    and inside: "filter (bInCube c l b) distances \<noteq> []"
  shows "\<exists>cum distMax. get_ebv_lallement c l b dmax dmin dstep distances
           = Inr (cum, distances, distMax)"
proof -
  have nl: "\<not> length distances < 1" using len by linarith
  have "length (roll1 distances) = length distances"
    by (cases "distances = []") (simp_all add: roll1_def)
  then obtain s where s: "d_step_of distances = Inr s"
    using len by (simp add: d_step_of_def Let_def)
  obtain m where m: "np_max (filter (bInCube c l b) distances) = Inr m"
    using np_max_Inr [OF inside] by blast
  obtain vs where vs: "rgi_all c (map (gal_to_xyz l b) distances) = Inr vs"
    using rgi_all_total [OF built] by blast
  show ?thesis
    using nl s m vs by (simp add: get_ebv_lallement_def find_max_distance_def)
qed

lemma gal0: "gal_to_xyz 0 0 d = (d, 0, 0)"
  by (simp add: gal_to_xyz_def radians_def)

lemma last0: "last (x0 cube0) = 10" "last (y0 cube0) = 10" "last (z0 cube0) = 10"
  by (simp_all add: x0_def y0_def z0_def cube0_def axis3)

lemma rgi_cube0_1: "rgi cube0 (1, 0, 0) = Inr 1"
  by (simp add: rgi_def RegularGridInterpolator_def x0_def y0_def z0_def cube0_def axis3
      valid3 asc3 out_of_bounds_def evaluate_linear_def find_index_def norm_distance_def
      edge_weight_def)

lemma rgi_cube0_2: "rgi cube0 (2, 0, 0) = Inr 1"
  by (simp add: rgi_def RegularGridInterpolator_def x0_def y0_def z0_def cube0_def axis3
      valid3 asc3 out_of_bounds_def evaluate_linear_def find_index_def norm_distance_def
      edge_weight_def)

lemma get_ebv_cube0:
  "get_ebv_lallement cube0 0 0 4300 (1/2) 5 [1, 2] = Inr ([1, 2], [1, 2], 2)"
  by (simp add: get_ebv_lallement_def d_step_of_def roll1_def find_max_distance_def
      bInCube_def gal0 last0 np_max_def rgi_cube0_1 rgi_cube0_2 cumsum_def)

theorem get_ebv_lallement_nondecreasing_witness:
  "sorted [1, 2 :: real] \<and> length [1, 2 :: real] = length [1, 2 :: real]"
proof -
  have a: "sorted_wrt (<) [1, 2 :: real]" by simp
  have b: "2 \<le> length [1, 2 :: real]" by simp
  have c: "\<forall>d\<in>set [1, 2 :: real]. \<exists>v\<ge>0. rgi cube0 (gal_to_xyz 0 0 d) = Inr v"
    by (simp add: gal0 rgi_cube0_1 rgi_cube0_2)
  show ?thesis
    by (rule get_ebv_lallement_nondecreasing [OF a b c get_ebv_cube0])
qed

theorem rgi_outside_bounds_zero_witness: "rgi cube0 (100, 0, 0) = Inr 0"
proof -
  have "Max (set (x0 cube0)) < 100"
    by (simp add: x0_def cube0_def axis3)
  then show ?thesis
    using rgi_outside_bounds_zero [OF rgi_built_cube0, of 100 0 0] by simp
qed

lemma rgi_cube_desc_outside: "rgi cube_desc (100, 0, 0) = Inr 0"
  by (simp add: rgi_def RegularGridInterpolator_def x0_def y0_def z0_def cube_desc_def
      axis3_desc valid3 asc3 out_of_bounds_def)

section \<open>Properties of \<open>lineofsight.generateDistances\<close>\<close>

lemma bInCube0: "bInCube cube0 0 0 d = (\<bar>d\<bar> < 10)"
  by (simp add: bInCube_def gal0 last0)

lemma close_short: "distsClose_of cube0 los_short = Inr (8, [1, 2, 3, 4, 5, 6, 7, 8])"
  by (simp add: distsClose_of_def los_short_def lineofsight_init_def generate_distances_def
      arange_def find_max_distance_def bInCube0 np_max_def upt_rec)

lemma far_short: "distsFar_of los_short [1, 2, 3, 4, 5, 6, 7, 8] = Inl IndexError"
  by (simp add: distsFar_of_def nBinsFar_of_def np_max_def
    linspace_open_def los_short_def lineofsight_init_def)

text \<open>
  C3.  With a total bin count at least the length of the fine array, so that the fallback
  does not trigger, the distance array should have exactly \<open>nDistBins\<close> elements.  At a
  fine array of 8 distances and \<open>nDistBins = 9\<close> the code instead raises IndexError at
  \<open>distsFar[1] - distsFar[0]\<close>: the guard \<open>nBinsFar < 0\<close> lets one coarse bin (and none)
  through, and no array is produced.
\<close>

theorem generateDistances_one_coarse_bin_raises:
  "distsClose_of cube0 los_short = Inr (8, [1, 2, 3, 4, 5, 6, 7, 8])
   \<and> nBinsFar_of los_short [1, 2, 3, 4, 5, 6, 7, 8] = 1
   \<and> generateDistances cube0 False los_short = Inl IndexError"
  by (simp add: generateDistances_def close_short far_short)
     (simp add: nBinsFar_of_def los_short_def lineofsight_init_def)

lemma close_neg: "distsClose_of cube0 los_neg = Inr (- 2, [3, 2, 1, 0, - 1, - 2])"
  by (simp add: distsClose_of_def los_neg_def lineofsight_init_def generate_distances_def
      arange_def find_max_distance_def bInCube0 np_max_def upt_rec)

lemma far_neg: "distsFar_of los_neg [3, 2, 1, 0, - 1, - 2] = Inr (14997 / 2, [15003 / 2, 15000])"
  by (simp add: distsFar_of_def nBinsFar_of_def np_max_def
    linspace_open_def los_neg_def lineofsight_init_def upt_rec)

lemma close_ok: "distsClose_of cube0 los_ok = Inr (8, [1, 2, 3, 4, 5, 6, 7, 8])"
  by (simp add: distsClose_of_def los_ok_def lineofsight_init_def generate_distances_def
      arange_def find_max_distance_def bInCube0 np_max_def upt_rec)

lemma far_ok: "distsFar_of los_ok [1, 2, 3, 4, 5, 6, 7, 8] = Inr (7496, [7504, 15000])"
  by (simp add: distsFar_of_def nBinsFar_of_def np_max_def
    linspace_open_def los_ok_def lineofsight_init_def upt_rec)

lemma gd_ok: "generateDistances cube0 False los_ok =
   Inr (los_ok \<lparr> distLimPc := 8, distStepCoarsePc := Some 7496,
                   distsPc := [1, 2, 3, 4, 5, 6, 7, 8, 7504, 15000],
                   distMinPc := 1, distMaxPc := 15000,
                   distStepPc := 14999 / 10 \<rparr>)"
  by (simp add: generateDistances_def close_ok far_ok np_min_def np_max_def)

lemma gd_neg: "generateDistances cube0 False los_neg =
   Inr (los_neg \<lparr> distLimPc := - 2, distStepCoarsePc := Some (14997 / 2),
                    distsPc := [3, 2, 1, 0, - 1, - 2, 15003 / 2, 15000],
                    distMinPc := - 2, distMaxPc := 15000,
                    distStepPc := 15002 / 8 \<rparr>)"
  by (simp add: generateDistances_def close_neg far_neg np_min_def np_max_def)


lemma arange_Inr:
  assumes "arange start stop step = Inr xs"
  shows "step \<noteq> 0"
    and "xs = map (\<lambda>i. start + real i * step) [0..<nat \<lceil>(stop - start) / step\<rceil>]"
  using assms by (auto simp add: arange_def split: if_splits)

lemma arange_increasing:
  assumes "arange start stop step = Inr xs" and "0 < step"
  shows "sorted_wrt (<) xs"
proof -
  have xs: "xs = map (\<lambda>i. start + real i * step) [0..<nat \<lceil>(stop - start) / step\<rceil>]"
    using assms(1) by (rule arange_Inr(2))
  show ?thesis
    unfolding xs sorted_wrt_iff_nth_less using assms(2) by simp
qed

lemma fold_max_ge: "y \<le> fold max ys (y::real)"
proof (induction ys arbitrary: y)
  case Nil
  then show ?case by simp
next
  case (Cons a ys)
  have "y \<le> max a y" by simp
  also have "\<dots> \<le> fold max ys (max a y)" by (rule Cons.IH)
  finally show ?case by simp
qed

lemma fold_max_upper: "\<forall>x\<in>set ys. x \<le> fold max ys (y::real)"
proof (induction ys arbitrary: y)
  case Nil
  then show ?case by simp
next
  case (Cons a ys)
  have "a \<le> max a y" by simp
  also have "\<dots> \<le> fold max ys (max a y)" by (rule fold_max_ge)
  finally have "a \<le> fold max ys (max a y)" .
  with Cons.IH [of "max a y"] show ?case by simp
qed

lemma fold_max_mem: "fold max ys (y::real) \<in> set (y # ys)"
proof (induction ys arbitrary: y)
  case Nil
  then show ?case by simp
next
  case (Cons a ys)
  have IH: "fold max ys (max a y) \<in> set (max a y # ys)" by (rule Cons.IH)
  have "max a y = a \<or> max a y = y" by (simp add: max_def)
  then show ?case using IH by auto
qed

lemma sorted_le_last:
  assumes "sorted_wrt (<) (xs::real list)" and "x \<in> set xs"
  shows "x \<le> last xs"
proof -
  from assms(2) obtain i where i: "i < length xs" "xs ! i = x"
    by (auto simp add: in_set_conv_nth)
  then have ne: "xs \<noteq> []" by auto
  have l: "last xs = xs ! (length xs - 1)" using ne by (simp add: last_conv_nth)
  show ?thesis
  proof (cases "i = length xs - 1")
    case True
    then show ?thesis using i l by simp
  next
    case False
    then have lt: "i < length xs - 1" using i by linarith
    have "length xs - 1 < length xs" using i by linarith
    with assms(1) lt have "xs ! i < xs ! (length xs - 1)"
      by (rule sorted_wrt_nth_less)
    then show ?thesis using i l by simp
  qed
qed

lemma np_max_sorted:
  assumes "np_max xs = Inr m" and "sorted_wrt (<) xs"
  shows "xs \<noteq> [] \<and> m = last xs"
proof -
  from assms(1) obtain y ys where xs: "xs = y # ys" and m: "m = fold max ys y"
    by (cases xs) (auto simp add: np_max_def)
  have mem: "m \<in> set xs" unfolding xs m by (rule fold_max_mem)
  have "last xs \<in> set xs" using xs by simp
  then have "last xs = y \<or> last xs \<in> set ys" unfolding xs by auto
  then have up: "last xs \<le> m"
    using fold_max_upper [of ys y] fold_max_ge [of y ys] unfolding m by auto
  have "m \<le> last xs" using assms(2) mem by (rule sorted_le_last)
  with up xs show ?thesis by simp
qed

lemma distsFar_of_Inr:
  assumes "distsFar_of self close = Inr (st, far)"
  shows "\<exists>mx. np_max close = Inr mx
           \<and> 2 \<le> nat (nBinsFar_of self close)
           \<and> st = (distMaxCoarsePc self - mx) / real (nat (nBinsFar_of self close))
           \<and> far = map (\<lambda>i. mx + real (Suc i) * st) [0..<nat (nBinsFar_of self close)]"
proof -
  from assms obtain mx where mx: "np_max close = Inr mx"
    by (auto simp add: distsFar_of_def split: sum.splits)
  define k where "k = nat (nBinsFar_of self close)"
  define far0 where "far0 = linspace_open mx (distMaxCoarsePc self) k"
  have len: "length far0 = k" by (simp add: far0_def linspace_open_def)
  from assms mx have e:
    "(if length far0 < 2 then Inl IndexError
      else Inr (far0 ! 1 - far0 ! 0, map (\<lambda>x. x + (far0 ! 1 - far0 ! 0)) far0))
     = (Inr (st, far) :: error + real \<times> real list)"
    unfolding distsFar_of_def far0_def k_def by (auto simp add: Let_def split: if_splits)
  have nlt: "\<not> length far0 < 2" using e by (auto split: if_splits)
  then have k2: "2 \<le> k" using len by linarith
  have st: "st = far0 ! 1 - far0 ! 0" and far: "far = map (\<lambda>x. x + st) far0"
    using e nlt by auto
  have n: "far0 ! i = mx + real i * ((distMaxCoarsePc self - mx) / real k)" if "i < k" for i
    using that by (simp add: far0_def linspace_open_def)
  have "0 < k" "1 < k" using k2 by linarith+
  then have st': "st = (distMaxCoarsePc self - mx) / real k"
    using st n [of 0] n [of 1] by simp
  have "far = map (\<lambda>i. mx + real (Suc i) * st) [0..<k]"
  proof (rule nth_equalityI)
    show "length far = length (map (\<lambda>i. mx + real (Suc i) * st) [0..<k])"
      using far len by simp
  next
    fix i assume "i < length far"
    then have ik: "i < k" using far len by simp
    then have "far ! i = far0 ! i + st" using far len by simp
    also have "far0 ! i = mx + real i * st" using n [OF ik] unfolding st' .
    also have "mx + real i * st + st = mx + real (Suc i) * st" by (simp add: algebra_simps)
    finally show "far ! i = map (\<lambda>i. mx + real (Suc i) * st) [0..<k] ! i" using ik by simp
  qed
  with mx k2 st' show ?thesis unfolding k_def by blast
qed

lemma generateDistances_Inr:
  assumes "generateDistances c v self = Inr self'"
  shows "\<exists>dlim close st far. distsClose_of c self = Inr (dlim, close)
           \<and> distsFar_of self close = Inr (st, far) \<and> distsPc self' = close @ far"
  using assms
  by (auto simp add: generateDistances_def Let_def split: sum.splits if_splits)

text \<open>
  The length of the grid when the call returns: with a total bin count at least the
  length of the fine array, the array has exactly \<open>nDistBins\<close> elements.
\<close>

lemma generateDistances_length:
  assumes ret: "generateDistances c v self = Inr self'"
    and close: "distsClose_of c self = Inr (dlim, close)"
    and enough: "int (length close) \<le> nDistBins self"
  shows "int (length (distsPc self')) = nDistBins self"
proof -
  from generateDistances_Inr [OF ret] close obtain st far where
    far: "distsFar_of self close = Inr (st, far)" and ds: "distsPc self' = close @ far"
    by auto
  from distsFar_of_Inr [OF far] have "length far = nat (nBinsFar_of self close)"
    by auto
  moreover have "nBinsFar_of self close = nDistBins self - int (length close)"
    using enough by (simp add: nBinsFar_of_def)
  ultimately show ?thesis using ds enough by simp
qed

text \<open>
  C4 as the code has it.  For a positive fine step, a coarse ceiling strictly beyond the
  last fine distance and at least two coarse bins, the distance array that
  \<open>generateDistances\<close> produces is the fine array followed by the coarse one, it is
  strictly increasing, and the first coarse value is strictly greater than the last fine
  value.
\<close>

theorem generateDistances_strictly_increasing:
  assumes step: "0 < distStepPc self"
    and close: "distsClose_of c self = Inr (dlim, close)"
    and far: "distsFar_of self close = Inr (st, far)"
    and ceil: "last close < distMaxCoarsePc self"
    and ret: "generateDistances c v self = Inr self'"
  shows "distsPc self' = close @ far \<and> 2 \<le> length far \<and> close \<noteq> []
         \<and> sorted_wrt (<) (distsPc self') \<and> last close < hd far"
proof -
  have ds: "distsPc self' = close @ far"
    using generateDistances_Inr [OF ret] close far by auto
  from close have "generate_distances dlim (distMinPc self) (distStepPc self) = Inr close"
    by (auto simp add: distsClose_of_def Let_def split: sum.splits)
  then have inc_close: "sorted_wrt (<) close"
    using step unfolding generate_distances_def by (rule arange_increasing)
  from distsFar_of_Inr [OF far] obtain mx where
    mx: "np_max close = Inr mx" and k2: "2 \<le> nat (nBinsFar_of self close)"
    and st: "st = (distMaxCoarsePc self - mx) / real (nat (nBinsFar_of self close))"
    and fr: "far = map (\<lambda>i. mx + real (Suc i) * st) [0..<nat (nBinsFar_of self close)]"
    by blast
  have ne: "close \<noteq> []" and mxl: "mx = last close"
    using np_max_sorted [OF mx inc_close] by simp_all
  have stpos: "0 < st" using st ceil mxl k2 by simp
  have lenfar: "length far = nat (nBinsFar_of self close)" using fr by simp
  have inc_far: "sorted_wrt (<) far"
    unfolding fr sorted_wrt_iff_nth_less using stpos by simp
  have above: "last close < y" if "y \<in> set far" for y
  proof -
    from that obtain i where "y = mx + real (Suc i) * st" unfolding fr by auto
    moreover have "0 < real (Suc i) * st" using stpos by simp
    ultimately show ?thesis using mxl by simp
  qed
  have below: "x \<le> last close" if "x \<in> set close" for x
    using inc_close that by (rule sorted_le_last)
  have "sorted_wrt (<) (close @ far)"
    unfolding sorted_wrt_append using inc_close inc_far above below by fastforce
  moreover have "far \<noteq> []" using lenfar k2 by auto
  then have "last close < hd far" using above by simp
  ultimately show ?thesis using ds ne lenfar k2 by simp
qed


theorem generateDistances_strictly_increasing_witness:
  "sorted_wrt (<) [1, 2, 3, 4, 5, 6, 7, 8, 7504, 15000 :: real]
   \<and> last [1, 2, 3, 4, 5, 6, 7, 8 :: real] < hd [7504, 15000]"
proof -
  have st: "0 < distStepPc los_ok"
    by (simp add: los_ok_def lineofsight_init_def)
  have ce: "last [1, 2, 3, 4, 5, 6, 7, 8] < distMaxCoarsePc los_ok"
    by (simp add: los_ok_def lineofsight_init_def)
  show ?thesis
    using generateDistances_strictly_increasing [OF st close_ok far_ok ce gd_ok]
    by simp
qed

text \<open>
  C4 as stated fails for a negative fine step: with the coarse ceiling 15000 beyond the
  last fine distance and two coarse bins, the fine part of the produced array decreases.
\<close>

theorem generateDistances_negative_step_counterexample:
  "distsClose_of cube0 los_neg = Inr (- 2, [3, 2, 1, 0, - 1, - 2])
   \<and> distsFar_of los_neg [3, 2, 1, 0, - 1, - 2] = Inr (14997 / 2, [15003 / 2, 15000])
   \<and> map_sum id distsPc (generateDistances cube0 False los_neg)
       = Inr [3, 2, 1, 0, - 1, - 2, 15003 / 2, 15000]
   \<and> \<not> sorted_wrt (<) [3, 2, 1, 0, - 1, - 2, 15003 / 2, 15000 :: real]"
  by (simp add: close_neg far_neg gd_neg)

section \<open>Properties of \<open>ebv3d.getDeltaMag\<close>\<close>

lemma R_x_init_keys: "set (map fst R_x_init) = {''u'', ''g'', ''r'', ''i'', ''z'', ''y''}"
  by (auto simp add: R_x_init_def)

text \<open>
  C10.  For a filter name that is not one of the six keys \<open>u, g, r, i, z, y\<close> of the
  coefficient table set by the constructor, \<open>getDeltaMag\<close> substitutes the r band: its
  result is the result of \<open>getDeltaMag('r')\<close>, and no KeyError is raised.
\<close>

theorem getDeltaMag_unknown_filter_is_r:
  assumes "R_x self = R_x_init"
    and "sFilt \<notin> {''u'', ''g'', ''r'', ''i'', ''z'', ''y''}"
  shows "getDeltaMag self sFilt = getDeltaMag self ''r''
         \<and> getDeltaMag self sFilt \<noteq> Inl KeyError"
proof -
  have k: "sFilt \<notin> set (map fst (R_x self))"
    using assms R_x_init_keys by simp
  have r: "''r'' \<in> set (map fst (R_x self))"
    using assms(1) R_x_init_keys by simp
  have g: "dict_get (R_x self) ''r'' = Inr (270 / 100)"
    using assms(1) by (simp add: dict_get_def R_x_init_def)
  have e: "getDeltaMag self sFilt = add_scaled (dmods self) (270 / 100) (ebvs self)"
    using k g by (simp add: getDeltaMag_def)
  have e': "getDeltaMag self ''r'' = add_scaled (dmods self) (270 / 100) (ebvs self)"
    using r g by (simp add: getDeltaMag_def)
  have "add_scaled (dmods self) (270 / 100) (ebvs self) \<noteq> Inl KeyError"
    by (simp add: add_scaled_def split: option.splits)
  with e e' show ?thesis by simp
qed

theorem getDeltaMag_unknown_filter_is_r_witness:
  "getDeltaMag (ebv3d_init \<lparr> ebvs := [[1, 2]], dmods := [[10, 20]] \<rparr>) ''V''
     = getDeltaMag (ebv3d_init \<lparr> ebvs := [[1, 2]], dmods := [[10, 20]] \<rparr>) ''r''
   \<and> getDeltaMag (ebv3d_init \<lparr> ebvs := [[1, 2]], dmods := [[10, 20]] \<rparr>) ''V''
     \<noteq> Inl KeyError"
proof -
  have a: "R_x (ebv3d_init \<lparr> ebvs := [[1, 2]], dmods := [[10, 20]] \<rparr>) = R_x_init"
    by (simp add: ebv3d_init_def)
  have b: "''V'' \<notin> {''u'', ''g'', ''r'', ''i'', ''z'', ''y''}"
    by simp
  show ?thesis
    by (rule getDeltaMag_unknown_filter_is_r [OF a b])
qed

end
